theory Spec2Isabelle
  imports Main "HOL-Library.Sublist"
begin

section \<open>The request-dispatch core of the ThingsBoard server (src/thingsboard.py)\<close>

text \<open>
  The embedding covers \<open>get_auth_token\<close>, \<open>make_thingsboard_request\<close> and
  \<open>execute_with_permission\<close>. One invocation is modelled sequentially: the global
  \<open>auth_token\<close> is threaded through as explicit state, the remote platform is a pair of
  stubs indexed by the number of earlier calls, every network call is appended to a
  trace, and an exception that leaves a function is the \<open>Inl\<close> branch of its result.
\<close>

subsection \<open>Python values\<close>

text \<open>
  The values that travel through the dispatcher (\<open>Optional[dict]\<close> parameters, decoded
  JSON bodies, the token). A dict is an association list in insertion order; floats do
  not occur in the modelled paths and are left out.
\<close>

datatype pyval =
    PNone
  | PBool bool
  | PInt int
  | PStr string
  | PList "pyval list"
  | PDict "(string \<times> pyval) list"

text \<open>Python truthiness, as used by \<open>if not auth_token\<close> and \<open>if json_data\<close>.\<close>

fun py_truthy :: "pyval \<Rightarrow> bool" where
  "py_truthy PNone = False"
| "py_truthy (PBool b) = b"
| "py_truthy (PInt i) = (i \<noteq> 0)"
| "py_truthy (PStr s) = (s \<noteq> [])"
| "py_truthy (PList xs) = (xs \<noteq> [])"
| "py_truthy (PDict kvs) = (kvs \<noteq> [])"

text \<open>
  The exceptions of the modelled paths. \<open>ValueError e\<close> is the
  \<open>ValueError(f"Error getting token: {e}")\<close> of \<open>get_auth_token\<close>, keeping the
  exception it wraps; \<open>RequestFailure d\<close> is any exception the HTTP client raises
  instead of answering (connection refused, timeout, DNS), with its text \<open>d\<close>.
\<close>

datatype exn =
    HTTPStatusError nat
  | RequestFailure string
  | JSONDecodeError
  | KeyError string
  | TypeError
  | ValueError exn

text \<open>\<open>v[key]\<close> for a string key: only a dict can be subscripted that way.\<close>

fun py_getitem :: "pyval \<Rightarrow> string \<Rightarrow> exn + pyval" where
  "py_getitem (PDict kvs) k =
     (case map_of kvs k of None \<Rightarrow> Inl (KeyError k) | Some v \<Rightarrow> Inr v)"
| "py_getitem _ k = Inl TypeError"

text \<open>\<open>str.lower()\<close> on the ASCII letters.\<close>

definition lower_char :: "char \<Rightarrow> char" where
  "lower_char c =
     (let n = (of_char c :: nat) in if 65 \<le> n \<and> n \<le> 90 then char_of (n + 32) else c)"

definition py_lower :: "string \<Rightarrow> string" where
  "py_lower s = map lower_char s"

subsection \<open>The HTTP client and the remote platform\<close>

text \<open>
  What one call of the HTTP client yields: it raises (\<open>Failed\<close>), or it answers with
  a status code and a body; the body is \<open>Some v\<close> when \<open>response.json()\<close> decodes it
  to \<open>v\<close> and \<open>None\<close> when \<open>response.json()\<close> raises.
\<close>

datatype http_reply =
    Failed string
  | Responded nat "pyval option"

record request =
  rq_verb :: string
  rq_url :: string
  rq_bearer :: pyval
  rq_params :: pyval
  rq_json :: "pyval option"

datatype event =
    LoginCall string string http_reply
  | SendCall request http_reply

text \<open>
  The module-level configuration, the two stubs standing for the platform (the reply
  to the \<open>k\<close>-th login exchange and to the \<open>k\<close>-th resource request), and Python's
  built-in \<open>str()\<close> on values, which the permission message interpolates.
\<close>

record env =
  THINGSBOARD_API_BASE :: string
  THINGSBOARD_USERNAME :: string
  THINGSBOARD_PASSWORD :: string
  login_stub :: "nat \<Rightarrow> string \<Rightarrow> string \<Rightarrow> http_reply"
  transport_stub :: "nat \<Rightarrow> request \<Rightarrow> http_reply"
  py_str :: "pyval \<Rightarrow> string"

text \<open>The global \<open>auth_token\<close> (\<open>PNone\<close> at import) and the log of network calls.\<close>

record tb_state =
  auth_token :: pyval
  trace :: "event list"

fun is_login :: "event \<Rightarrow> bool" where
  "is_login (LoginCall u p r) = True"
| "is_login (SendCall q r) = False"

fun is_send :: "event \<Rightarrow> bool" where
  "is_send (LoginCall u p r) = False"
| "is_send (SendCall q r) = True"

definition login_calls :: "event list \<Rightarrow> nat" where
  "login_calls evs = length (filter is_login evs)"

definition transport_calls :: "event list \<Rightarrow> nat" where
  "transport_calls evs = length (filter is_send evs)"

text \<open>The events one invocation appended, and the transport's answers among them.\<close>

definition new_events :: "tb_state \<Rightarrow> tb_state \<Rightarrow> event list" where
  "new_events st st' = drop (length (trace st)) (trace st')"

fun transport_replies :: "event list \<Rightarrow> http_reply list" where
  "transport_replies [] = []"
| "transport_replies (LoginCall u p r # evs) = transport_replies evs"
| "transport_replies (SendCall q r # evs) = r # transport_replies evs"

text \<open>
  \<open>Response.raise_for_status()\<close> of the HTTP library: it raises for every status
  outside 200..299 and returns otherwise.
\<close>

definition raise_for_status :: "nat \<Rightarrow> exn option" where
  "raise_for_status sc =
     (if 200 \<le> sc \<and> sc \<le> 299 then None else Some (HTTPStatusError sc))"

subsection \<open>Outcomes\<close>

record permission_request =
  requires_permission :: bool
  pr_method :: string
  pr_endpoint :: string
  pr_params :: pyval
  pr_json_data :: pyval
  pr_message :: string

text \<open>
  The four shapes a call returns, one constructor per \<open>return\<close> statement kind:
  the decoded body, \<open>{"success": True}\<close>, the permission request, and the error
  dict. In \<open>ErrorRecord msg d\<close> the \<open>"details"\<close> entry is \<open>str(e)\<close> of the exception
  \<open>e\<close> when \<open>d = Some e\<close>; the unsupported-method dict has no such entry (\<open>None\<close>).
\<close>

datatype outcome =
    JsonBody pyval
  | SuccessMarker
  | PermissionRequest permission_request
  | ErrorRecord string "exn option"

subsection \<open>get_auth_token\<close>

definition get_auth_token :: "env \<Rightarrow> tb_state \<Rightarrow> (exn + pyval) \<times> tb_state" where
  "get_auth_token w st =
     (let reply = login_stub w (login_calls (trace st))
                    (THINGSBOARD_USERNAME w) (THINGSBOARD_PASSWORD w);
          st' = st\<lparr>trace := trace st @
                  [LoginCall (THINGSBOARD_USERNAME w) (THINGSBOARD_PASSWORD w) reply]\<rparr>
      in (case reply of
            Failed d \<Rightarrow> (Inl (ValueError (RequestFailure d)), st')
          | Responded sc b \<Rightarrow>
              (case raise_for_status sc of
                 Some e \<Rightarrow> (Inl (ValueError e), st')
               | None \<Rightarrow>
                   (case b of
                      None \<Rightarrow> (Inl (ValueError JSONDecodeError), st')
                    | Some v \<Rightarrow>
                        (case py_getitem v ''token'' of
                           Inl e \<Rightarrow> (Inl (ValueError e), st')
                         | Inr t \<Rightarrow> (Inr t, st'))))))"

subsection \<open>make_thingsboard_request\<close>

text \<open>
  \<open>if not auth_token: auth_token = get_auth_token(...)\<close>, which stands outside every
  \<open>try\<close>: an exception of the login exchange leaves the function.
\<close>

definition ensure_auth_token :: "env \<Rightarrow> tb_state \<Rightarrow> (exn + unit) \<times> tb_state" where
  "ensure_auth_token w st =
     (if \<not> py_truthy (auth_token st) then
        (case get_auth_token w st of
           (Inl e, st') \<Rightarrow> (Inl e, st')
         | (Inr tok, st') \<Rightarrow> (Inr (), st'\<lparr>auth_token := tok\<rparr>))
      else (Inr (), st))"

text \<open>One call of the HTTP client, logged.\<close>

definition client_request :: "env \<Rightarrow> request \<Rightarrow> tb_state \<Rightarrow> http_reply \<times> tb_state" where
  "client_request w req st =
     (let reply = transport_stub w (transport_calls (trace st)) req
      in (reply, st\<lparr>trace := trace st @ [SendCall req reply]\<rparr>))"

text \<open>
  The three lines after every client call: \<open>response.raise_for_status()\<close>, the 204
  test, \<open>return response.json()\<close>.
\<close>

definition read_response :: "nat \<Rightarrow> pyval option \<Rightarrow> exn + outcome" where
  "read_response sc b =
     (case raise_for_status sc of
        Some e \<Rightarrow> Inl e
      | None \<Rightarrow>
          if sc = 204 then Inr SuccessMarker
          else (case b of None \<Rightarrow> Inl JSONDecodeError | Some v \<Rightarrow> Inr (JsonBody v)))"

text \<open>
  The \<open>except httpx.HTTPStatusError\<close> handler. On 401 it refreshes the token and
  repeats the call; whatever is raised there (by the login exchange, the client, the
  status check or the decoding) is raised inside a handler, so the sibling
  \<open>except Exception\<close> does not see it. Any other status gives the error dict.
\<close>

definition on_status_error ::
  "env \<Rightarrow> tb_state \<Rightarrow> request \<Rightarrow> string \<Rightarrow> nat \<Rightarrow> (exn + outcome) \<times> tb_state" where
  "on_status_error w st req errmsg sc =
     (if sc = 401 then
        (case get_auth_token w st of
           (Inl e, st1) \<Rightarrow> (Inl e, st1)
         | (Inr tok, st1) \<Rightarrow>
             (case client_request w (req\<lparr>rq_bearer := tok\<rparr>) (st1\<lparr>auth_token := tok\<rparr>) of
                (Failed d, st2) \<Rightarrow> (Inl (RequestFailure d), st2)
              | (Responded sc' b', st2) \<Rightarrow> (read_response sc' b', st2)))
      else (Inr (ErrorRecord errmsg (Some (HTTPStatusError sc))), st))"

text \<open>
  The \<open>try\<close> block with its two handlers, the same in the GET branch and in the
  permitted non-GET branch apart from the client method and the error text.
\<close>

definition request_with_retry ::
  "env \<Rightarrow> tb_state \<Rightarrow> request \<Rightarrow> string \<Rightarrow> (exn + outcome) \<times> tb_state" where
  "request_with_retry w st req errmsg =
     (case client_request w req st of
        (Failed d, st1) \<Rightarrow> (Inr (ErrorRecord errmsg (Some (RequestFailure d))), st1)
      | (Responded sc b, st1) \<Rightarrow>
          (case read_response sc b of
             Inr out \<Rightarrow> (Inr out, st1)
           | Inl e \<Rightarrow>
               (case e of
                  HTTPStatusError c \<Rightarrow> on_status_error w st1 req errmsg c
                | _ \<Rightarrow> (Inr (ErrorRecord errmsg (Some e)), st1))))"

text \<open>The \<open>if/elif/else\<close> choosing the client method of a permitted non-GET call.\<close>

definition method_request ::
  "string \<Rightarrow> string \<Rightarrow> pyval \<Rightarrow> pyval \<Rightarrow> pyval \<Rightarrow> request option" where
  "method_request method url tok params json_data =
     (if method = ''POST'' then
        Some \<lparr>rq_verb = ''POST'', rq_url = url, rq_bearer = tok, rq_params = params,
              rq_json = Some json_data\<rparr>
      else if method = ''PUT'' then
        Some \<lparr>rq_verb = ''PUT'', rq_url = url, rq_bearer = tok, rq_params = params,
              rq_json = Some json_data\<rparr>
      else if method = ''DELETE'' then
        Some \<lparr>rq_verb = ''DELETE'', rq_url = url, rq_bearer = tok, rq_params = params,
              rq_json = None\<rparr>
      else None)"

definition operation_descriptions :: "(string \<times> string) list" where
  "operation_descriptions =
     [(''POST'', ''create or add new data''),
      (''PUT'', ''update existing data''),
      (''DELETE'', ''permanently remove data'')]"

definition operation_description :: "string \<Rightarrow> string" where
  "operation_description method =
     (case map_of operation_descriptions method of
        Some d \<Rightarrow> d
      | None \<Rightarrow> ''perform a '' @ method @ '' operation'')"

definition permission_message :: "env \<Rightarrow> string \<Rightarrow> string \<Rightarrow> pyval \<Rightarrow> string" where
  "permission_message w method endpoint json_data =
     (let endpoint_info = ''endpoint: '' @ endpoint;
          data_info = (if py_truthy json_data then '', data: '' @ py_str w json_data else [])
      in ''This operation will '' @ operation_description method @ '' in ThingsBoard (''
           @ endpoint_info @ data_info @ ''). Do you want to proceed?'')"

definition make_thingsboard_request ::
  "env \<Rightarrow> tb_state \<Rightarrow> string \<Rightarrow> string \<Rightarrow> pyval \<Rightarrow> pyval \<Rightarrow> bool
     \<Rightarrow> (exn + outcome) \<times> tb_state" where
  "make_thingsboard_request w st endpoint method params json_data permission_granted =
     (if method = ''GET'' then
        (case ensure_auth_token w st of
           (Inl e, st1) \<Rightarrow> (Inl e, st1)
         | (Inr u, st1) \<Rightarrow>
             request_with_retry w st1
               \<lparr>rq_verb = ''GET'', rq_url = THINGSBOARD_API_BASE w @ ''/'' @ endpoint,
                rq_bearer = auth_token st1, rq_params = params, rq_json = None\<rparr>
               ''Unable to get data from ThingsBoard'')
      else if \<not> permission_granted then
        (Inr (PermissionRequest
               \<lparr>requires_permission = True, pr_method = method, pr_endpoint = endpoint,
                pr_params = params, pr_json_data = json_data,
                pr_message = permission_message w method endpoint json_data\<rparr>), st)
      else
        (case ensure_auth_token w st of
           (Inl e, st1) \<Rightarrow> (Inl e, st1)
         | (Inr u, st1) \<Rightarrow>
             (case method_request method (THINGSBOARD_API_BASE w @ ''/'' @ endpoint)
                     (auth_token st1) params json_data of
                None \<Rightarrow> (Inr (ErrorRecord (''Unsupported HTTP method: '' @ method) None), st1)
              | Some req \<Rightarrow>
                  request_with_retry w st1 req
                    (''Unable to '' @ py_lower method @ '' data from ThingsBoard''))))"

subsection \<open>execute_with_permission\<close>

definition execute_with_permission ::
  "env \<Rightarrow> tb_state \<Rightarrow> string \<Rightarrow> string \<Rightarrow> pyval \<Rightarrow> pyval \<Rightarrow> (exn + outcome) \<times> tb_state" where
  "execute_with_permission w st method endpoint params json_data =
     make_thingsboard_request w st endpoint method params json_data True"

subsection \<open>Stub platforms and states for concrete runs\<close>

text \<open>
  A scripted platform: the \<open>k\<close>-th login exchange and the \<open>k\<close>-th resource request
  get the \<open>k\<close>-th entry of a list, and the connection is refused once the list is
  used up.
\<close>

definition script :: "http_reply list \<Rightarrow> nat \<Rightarrow> http_reply" where
  "script rs k = (if k < length rs then rs ! k else Failed ''connection refused'')"

definition stub_env :: "http_reply list \<Rightarrow> http_reply list \<Rightarrow> env" where
  "stub_env logins replies =
     \<lparr>THINGSBOARD_API_BASE = ''http://tb/api'',
      THINGSBOARD_USERNAME = ''tenant'',
      THINGSBOARD_PASSWORD = ''secret'',
      login_stub = (\<lambda>k u p. script logins k),
      transport_stub = (\<lambda>k q. script replies k),
      py_str = (\<lambda>v. ''{...}'')\<rparr>"

definition login_ok :: http_reply where
  "login_ok = Responded 200 (Some (PDict [(''token'', PStr ''t1'')]))"

definition device_abc :: pyval where
  "device_abc = PDict [(''id'', PStr ''abc'')]"

text \<open>The state right after import (no token), and a state holding a token.\<close>

definition fresh_state :: tb_state where
  "fresh_state = \<lparr>auth_token = PNone, trace = []\<rparr>"

definition logged_in :: tb_state where
  "logged_in = \<lparr>auth_token = PStr ''t0'', trace = []\<rparr>"

definition get_req :: "string \<Rightarrow> request" where
  "get_req tok =
     \<lparr>rq_verb = ''GET'', rq_url = ''http://tb/api/device/abc'', rq_bearer = PStr tok,
      rq_params = PNone, rq_json = None\<rparr>"

text \<open>
  The state after a GET of \<open>device/abc\<close> that started in \<open>logged_in\<close>, met a 401,
  refreshed the token and got \<open>rep\<close> on the second attempt.
\<close>

definition retried_state :: "http_reply \<Rightarrow> tb_state" where
  "retried_state rep =
     \<lparr>auth_token = PStr ''t1'',
      trace = [SendCall (get_req ''t0'') (Responded 401 None),
               LoginCall ''tenant'' ''secret'' login_ok,
               SendCall (get_req ''t1'') rep]\<rparr>"

section \<open>Properties\<close>

subsection \<open>The shape of a run\<close>

lemmas run_defs =
  make_thingsboard_request_def ensure_auth_token_def get_auth_token_def
  request_with_retry_def on_status_error_def client_request_def read_response_def
  raise_for_status_def method_request_def login_calls_def transport_calls_def

lemmas stub_defs =
  stub_env_def script_def login_ok_def device_abc_def fresh_state_def logged_in_def
  get_req_def retried_state_def

lemma snd_get_auth_token:
  "snd (get_auth_token w st) =
     st\<lparr>trace := trace st @
        [LoginCall (THINGSBOARD_USERNAME w) (THINGSBOARD_PASSWORD w)
           (login_stub w (login_calls (trace st)) (THINGSBOARD_USERNAME w)
              (THINGSBOARD_PASSWORD w))]\<rparr>"
  by (simp add: get_auth_token_def Let_def split: http_reply.splits option.splits sum.splits)

lemma get_auth_token_state:
  assumes "get_auth_token w st = (r, st')"
  shows "\<exists>lr. st' = st\<lparr>trace := trace st @
           [LoginCall (THINGSBOARD_USERNAME w) (THINGSBOARD_PASSWORD w) lr]\<rparr>"
  using snd_get_auth_token [of w st] assms by auto

lemma on_status_error_401:
  assumes "on_status_error w st req msg 401 = (r, st')"
  shows "(\<exists>lr e. trace st' = trace st @
              [LoginCall (THINGSBOARD_USERNAME w) (THINGSBOARD_PASSWORD w) lr] \<and> r = Inl e)
       \<or> (\<exists>lr tok rep. trace st' = trace st @
              [LoginCall (THINGSBOARD_USERNAME w) (THINGSBOARD_PASSWORD w) lr,
               SendCall (req\<lparr>rq_bearer := tok\<rparr>) rep]
            \<and> r = (case rep of Failed d \<Rightarrow> Inl (RequestFailure d)
                               | Responded sc b \<Rightarrow> read_response sc b))"
proof -
  obtain r1 st1 where g: "get_auth_token w st = (r1, st1)"
    by (cases "get_auth_token w st")
  from get_auth_token_state [OF g] obtain lr where
    st1: "st1 = st\<lparr>trace := trace st @
            [LoginCall (THINGSBOARD_USERNAME w) (THINGSBOARD_PASSWORD w) lr]\<rparr>" ..
  show ?thesis
  proof (cases r1)
    case (Inl e)
    with assms g st1 have "r = Inl e" and "st' = st1"
      by (simp_all add: on_status_error_def)
    with st1 show ?thesis by simp
  next
    case (Inr tok)
    define rep where "rep = transport_stub w (transport_calls (trace st1)) (req\<lparr>rq_bearer := tok\<rparr>)"
    from assms g Inr have
      "trace st' = trace st1 @ [SendCall (req\<lparr>rq_bearer := tok\<rparr>) rep]"
      and "r = (case rep of Failed d \<Rightarrow> Inl (RequestFailure d)
                           | Responded sc b \<Rightarrow> read_response sc b)"
      by (auto simp: on_status_error_def client_request_def rep_def Let_def
          split: http_reply.splits)
    with st1 show ?thesis by auto
  qed
qed

lemma request_with_retry_cases:
  assumes "request_with_retry w st req msg = (r, st')"
  shows "(\<exists>rep out. trace st' = trace st @ [SendCall req rep] \<and> r = Inr out
            \<and> (\<forall>b. rep \<noteq> Responded 401 b)
            \<and> (\<forall>b. rep = Responded 204 b \<longrightarrow> out = SuccessMarker))
       \<or> (\<exists>b lr e. trace st' = trace st @ [SendCall req (Responded 401 b),
              LoginCall (THINGSBOARD_USERNAME w) (THINGSBOARD_PASSWORD w) lr] \<and> r = Inl e)
       \<or> (\<exists>b lr tok rep. trace st' = trace st @ [SendCall req (Responded 401 b),
              LoginCall (THINGSBOARD_USERNAME w) (THINGSBOARD_PASSWORD w) lr,
              SendCall (req\<lparr>rq_bearer := tok\<rparr>) rep]
            \<and> r = (case rep of Failed d \<Rightarrow> Inl (RequestFailure d)
                               | Responded sc b' \<Rightarrow> read_response sc b'))"
proof -
  define rep where "rep = transport_stub w (transport_calls (trace st)) req"
  define st1 where "st1 = st\<lparr>trace := trace st @ [SendCall req rep]\<rparr>"
  have cr: "client_request w req st = (rep, st1)"
    by (simp add: client_request_def rep_def st1_def Let_def)
  have tr1: "trace st1 = trace st @ [SendCall req rep]"
    by (simp add: st1_def)
  show ?thesis
  proof (cases "\<exists>b. rep = Responded 401 b")
    case True
    then obtain b where rep401: "rep = Responded 401 b" ..
    with assms cr have "on_status_error w st1 req msg 401 = (r, st')"
      by (simp add: request_with_retry_def read_response_def raise_for_status_def)
    from on_status_error_401 [OF this] tr1 rep401 show ?thesis by auto
  next
    case False
    with assms cr have "st' = st1" and "\<exists>out. r = Inr out"
      and "\<forall>b. rep = Responded 204 b \<longrightarrow> r = Inr SuccessMarker"
      by (auto simp: request_with_retry_def read_response_def raise_for_status_def
          on_status_error_def
          split: http_reply.splits option.splits sum.splits exn.splits if_splits)
    with tr1 False show ?thesis by auto
  qed
qed

lemma ensure_auth_token_ok:
  assumes "ensure_auth_token w st = (Inr u, st1)"
  shows "\<exists>pre. trace st1 = trace st @ pre \<and> transport_replies pre = []"
proof (cases "py_truthy (auth_token st)")
  case True
  with assms have "st1 = st" by (simp add: ensure_auth_token_def)
  then show ?thesis by simp
next
  case False
  with assms obtain tok st0 where g: "get_auth_token w st = (Inr tok, st0)"
    and s1: "st1 = st0\<lparr>auth_token := tok\<rparr>"
    by (auto simp: ensure_auth_token_def split: prod.splits sum.splits)
  from get_auth_token_state [OF g] s1 obtain lr where
    "trace st1 = trace st @ [LoginCall (THINGSBOARD_USERNAME w) (THINGSBOARD_PASSWORD w) lr]"
    by auto
  moreover have "transport_replies
     [LoginCall (THINGSBOARD_USERNAME w) (THINGSBOARD_PASSWORD w) lr] = []" by simp
  ultimately show ?thesis by blast
qed

lemma ensure_auth_token_raises:
  assumes "ensure_auth_token w st = (Inl e, st1)"
  shows "\<exists>lr. trace st1 = trace st @
           [LoginCall (THINGSBOARD_USERNAME w) (THINGSBOARD_PASSWORD w) lr]"
  using assms
  by (auto simp: ensure_auth_token_def split: if_splits prod.splits sum.splits
      dest!: get_auth_token_state)

lemma make_thingsboard_request_cases:
  assumes run: "make_thingsboard_request w st endpoint method params json_data g = (r, st')"
  shows "(method \<noteq> ''GET'' \<and> \<not> g \<and> st' = st \<and> (\<exists>pr. r = Inr (PermissionRequest pr)))
       \<or> (\<exists>lr e. trace st' = trace st @
              [LoginCall (THINGSBOARD_USERNAME w) (THINGSBOARD_PASSWORD w) lr] \<and> r = Inl e)
       \<or> (\<exists>pre msg. trace st' = trace st @ pre \<and> transport_replies pre = []
              \<and> r = Inr (ErrorRecord msg None))
       \<or> (\<exists>pre st1 req msg. trace st1 = trace st @ pre \<and> transport_replies pre = []
              \<and> request_with_retry w st1 req msg = (r, st'))"
proof (cases "method \<noteq> ''GET'' \<and> \<not> g")
  case True
  with run have "st' = st" and "\<exists>pr. r = Inr (PermissionRequest pr)"
    by (auto simp: make_thingsboard_request_def)
  with True show ?thesis by blast
next
  case asked: False
  obtain r0 st1 where ens: "ensure_auth_token w st = (r0, st1)"
    by (cases "ensure_auth_token w st")
  show ?thesis
  proof (cases r0)
    case (Inl e)
    with run asked ens have "r = Inl e" and "st' = st1"
      by (auto simp: make_thingsboard_request_def split: if_splits)
    with ensure_auth_token_raises [of w st e st1] ens Inl show ?thesis by blast
  next
    case (Inr u)
    from ensure_auth_token_ok [of w st u st1] ens Inr obtain pre where
      pre: "trace st1 = trace st @ pre" "transport_replies pre = []" by blast
    from run asked ens Inr have
      "(\<exists>msg. r = Inr (ErrorRecord msg None) \<and> st' = st1)
       \<or> (\<exists>req msg. request_with_retry w st1 req msg = (r, st'))"
      by (auto simp: make_thingsboard_request_def split: if_splits option.splits)
    with pre show ?thesis by blast
  qed
qed

lemma transport_replies_append:
  "transport_replies (xs @ ys) = transport_replies xs @ transport_replies ys"
  by (induction xs rule: transport_replies.induct) simp_all

subsection \<open>The permission request\<close>

text \<open>The dictionary lookup with its default, spelled out.\<close>

lemma operation_description_cases:
  "operation_description method =
     (if method = ''POST'' then ''create or add new data''
      else if method = ''PUT'' then ''update existing data''
      else if method = ''DELETE'' then ''permanently remove data''
      else ''perform a '' @ method @ '' operation'')"
  by (simp add: operation_description_def operation_descriptions_def)

text \<open>
  C1. A call with a method other than \<open>"GET"\<close> and \<open>permission_granted = False\<close>
  returns the permission request: the flag \<open>requires_permission\<close> set, the method,
  endpoint, params and json_data of the call, and the message built from them. The
  state it returns is the state it was given: no event (login exchange or resource
  request) is logged, both call counters stand, and the token is not touched.
\<close>

theorem permission_request_echoes_input:
  assumes "method \<noteq> ''GET''"
  shows "make_thingsboard_request w st endpoint method params json_data False
           = (Inr (PermissionRequest
                \<lparr>requires_permission = True, pr_method = method, pr_endpoint = endpoint,
                 pr_params = params, pr_json_data = json_data,
                 pr_message =
                   ''This operation will ''
                   @ (if method = ''POST'' then ''create or add new data''
                      else if method = ''PUT'' then ''update existing data''
                      else if method = ''DELETE'' then ''permanently remove data''
                      else ''perform a '' @ method @ '' operation'')
                   @ '' in ThingsBoard (endpoint: '' @ endpoint
                   @ (if py_truthy json_data then '', data: '' @ py_str w json_data else [])
                   @ ''). Do you want to proceed?''\<rparr>), st)
       \<and> new_events st (snd (make_thingsboard_request w st endpoint method params
             json_data False)) = []
       \<and> login_calls (trace (snd (make_thingsboard_request w st endpoint method params
             json_data False))) = login_calls (trace st)
       \<and> transport_calls (trace (snd (make_thingsboard_request w st endpoint method params
             json_data False))) = transport_calls (trace st)
       \<and> auth_token (snd (make_thingsboard_request w st endpoint method params
             json_data False)) = auth_token st"
  using assms
  by (simp add: make_thingsboard_request_def new_events_def permission_message_def
      operation_description_cases)

text \<open>
  The same at a DELETE of \<open>device/abc\<close> with a query parameter and no token held, and
  at a POST with a body and a token held.
\<close>

theorem permission_request_echoes_input_witness:
  "''DELETE'' \<noteq> ''GET'' \<and>
   make_thingsboard_request (stub_env [] []) fresh_state ''device/abc'' ''DELETE''
       (PDict [(''force'', PBool True)]) PNone False
     = (Inr (PermissionRequest
          \<lparr>requires_permission = True, pr_method = ''DELETE'', pr_endpoint = ''device/abc'',
           pr_params = PDict [(''force'', PBool True)], pr_json_data = PNone,
           pr_message = ''This operation will permanently remove data in ThingsBoard (endpoint: device/abc). Do you want to proceed?''\<rparr>),
        fresh_state)
   \<and> make_thingsboard_request (stub_env [] []) logged_in ''device'' ''POST''
       PNone (PDict [(''name'', PStr ''d1'')]) False
     = (Inr (PermissionRequest
          \<lparr>requires_permission = True, pr_method = ''POST'', pr_endpoint = ''device'',
           pr_params = PNone, pr_json_data = PDict [(''name'', PStr ''d1'')],
           pr_message = ''This operation will create or add new data in ThingsBoard (endpoint: device, data: {...}). Do you want to proceed?''\<rparr>),
        logged_in)"
proof -
  have h: "''DELETE'' \<noteq> ''GET''" by simp
  have h2: "''POST'' \<noteq> ''GET''" by simp
  from permission_request_echoes_input [OF h, of "stub_env [] []" fresh_state
      "''device/abc''" "PDict [(''force'', PBool True)]" PNone]
    permission_request_echoes_input [OF h2, of "stub_env [] []" logged_in
      "''device''" PNone "PDict [(''name'', PStr ''d1'')]"]
  show ?thesis by (simp add: stub_env_def)
qed

text \<open>
  C6. \<open>execute_with_permission\<close> is \<open>make_thingsboard_request\<close> with the same arguments
  and \<open>permission_granted = True\<close>: same result and same final state, for every input.
\<close>

theorem execute_with_permission_is_granted_request:
  "execute_with_permission w st method endpoint params json_data
     = make_thingsboard_request w st endpoint method params json_data True"
  by (simp add: execute_with_permission_def)

text \<open>C6 on a confirmed DELETE answered with 204.\<close>

theorem execute_with_permission_is_granted_request_witness:
  "execute_with_permission (stub_env [] [Responded 204 None]) logged_in
       ''DELETE'' ''device/abc'' PNone PNone
     = (Inr SuccessMarker,
        \<lparr>auth_token = PStr ''t0'',
         trace = [SendCall \<lparr>rq_verb = ''DELETE'', rq_url = ''http://tb/api/device/abc'',
                             rq_bearer = PStr ''t0'', rq_params = PNone, rq_json = None\<rparr>
                    (Responded 204 None)]\<rparr>)"
proof -
  have "make_thingsboard_request (stub_env [] [Responded 204 None]) logged_in
       ''device/abc'' ''DELETE'' PNone PNone True
     = (Inr SuccessMarker,
        \<lparr>auth_token = PStr ''t0'',
         trace = [SendCall \<lparr>rq_verb = ''DELETE'', rq_url = ''http://tb/api/device/abc'',
                             rq_bearer = PStr ''t0'', rq_params = PNone, rq_json = None\<rparr>
                    (Responded 204 None)]\<rparr>)"
    by (simp add: run_defs stub_defs Let_def)
  with execute_with_permission_is_granted_request [of "stub_env [] [Responded 204 None]"
      logged_in "''DELETE''" "''device/abc''" PNone PNone]
  show ?thesis by simp
qed

lemma permission_message_contains:
  "sublist (operation_description method) (permission_message w method endpoint json_data)"
  unfolding permission_message_def Let_def
  by (rule sublist_appendI)

text \<open>
  C8. The message of the permission request contains the description of the effect:
  "create or add new data" for POST, "update existing data" for PUT, "permanently
  remove data" for DELETE, and "perform a METHOD operation" for any other method.
  In particular an unpermitted DELETE of \<open>device/abc\<close> gives a request with the flag
  set, method DELETE, endpoint \<open>device/abc\<close> and a message containing "permanently
  remove data". The flag's key is \<open>requires_permission\<close> in the source.
\<close>

theorem permission_message_describes_effect:
  "(method \<noteq> ''GET'' \<longrightarrow>
     (\<exists>pr. make_thingsboard_request w st endpoint method params json_data False
              = (Inr (PermissionRequest pr), st)
          \<and> requires_permission pr
          \<and> sublist (if method = ''POST'' then ''create or add new data''
                     else if method = ''PUT'' then ''update existing data''
                     else if method = ''DELETE'' then ''permanently remove data''
                     else ''perform a '' @ method @ '' operation'') (pr_message pr)))
   \<and> (\<exists>pr. make_thingsboard_request w st ''device/abc'' ''DELETE'' params json_data False
              = (Inr (PermissionRequest pr), st)
          \<and> requires_permission pr \<and> pr_method pr = ''DELETE''
          \<and> pr_endpoint pr = ''device/abc''
          \<and> sublist ''permanently remove data'' (pr_message pr))"
proof -
  have "sublist ''permanently remove data''
          (permission_message w ''DELETE'' ''device/abc'' json_data)"
    using permission_message_contains [of "''DELETE''" w "''device/abc''" json_data]
    by (simp add: operation_description_cases)
  moreover have "sublist (if method = ''POST'' then ''create or add new data''
                     else if method = ''PUT'' then ''update existing data''
                     else if method = ''DELETE'' then ''permanently remove data''
                     else ''perform a '' @ method @ '' operation'')
      (permission_message w method endpoint json_data)"
    using permission_message_contains [of "method" w endpoint json_data]
    by (simp only: operation_description_cases)
  ultimately show ?thesis
    by (simp add: make_thingsboard_request_def)
qed

text \<open>The generic wording at PATCH.\<close>

theorem permission_message_describes_effect_witness:
  "''PATCH'' \<noteq> ''GET'' \<and>
   (\<exists>pr. make_thingsboard_request (stub_env [] []) fresh_state ''device/abc'' ''PATCH''
            PNone PNone False = (Inr (PermissionRequest pr), fresh_state)
        \<and> requires_permission pr
        \<and> sublist ''perform a PATCH operation'' (pr_message pr))"
  using permission_message_describes_effect [of "''PATCH''" "stub_env [] []" fresh_state
      "''device/abc''" PNone PNone]
  by simp

text \<open>
  C9. Two unpermitted calls with the same non-GET request return the same permission
  request, whatever the two states (token and trace) they start from.
\<close>

theorem permission_request_idempotent:
  assumes "method \<noteq> ''GET''"
  shows "\<exists>pr. make_thingsboard_request w st1 endpoint method params json_data False
              = (Inr (PermissionRequest pr), st1)
            \<and> make_thingsboard_request w st2 endpoint method params json_data False
              = (Inr (PermissionRequest pr), st2)"
  using assms by (simp add: make_thingsboard_request_def)

text \<open>A POST asked once without a token and once with one.\<close>

theorem permission_request_idempotent_witness:
  "''POST'' \<noteq> ''GET'' \<and>
   (\<exists>pr. make_thingsboard_request (stub_env [] []) fresh_state ''alarm/7/ack'' ''POST''
            PNone PNone False = (Inr (PermissionRequest pr), fresh_state)
        \<and> make_thingsboard_request (stub_env [] []) logged_in ''alarm/7/ack'' ''POST''
            PNone PNone False = (Inr (PermissionRequest pr), logged_in))"
proof -
  have h: "''POST'' \<noteq> ''GET''" by simp
  from permission_request_idempotent [OF h, of "stub_env [] []" fresh_state
      "''alarm/7/ack''" PNone PNone logged_in]
  show ?thesis using h by blast
qed

subsection \<open>Runs that reach the transport\<close>

text \<open>
  Every run is of one of four shapes: no resource request at all; one request that is
  not answered with 401; a 401 followed by a login exchange that raises; or a 401, a
  login exchange and the second request, whose answer decides the result.
\<close>

lemma run_shapes:
  assumes run: "make_thingsboard_request w st endpoint method params json_data granted = (r, st')"
  shows "transport_replies (new_events st st') = []
       \<or> (\<exists>pre req rep out. new_events st st' = pre @ [SendCall req rep]
            \<and> transport_replies pre = [] \<and> r = Inr out
            \<and> (\<forall>b. rep \<noteq> Responded 401 b)
            \<and> (\<forall>b. rep = Responded 204 b \<longrightarrow> out = SuccessMarker))
       \<or> (\<exists>pre req b lr e. new_events st st' = pre @ [SendCall req (Responded 401 b),
              LoginCall (THINGSBOARD_USERNAME w) (THINGSBOARD_PASSWORD w) lr]
            \<and> transport_replies pre = [] \<and> r = Inl e)
       \<or> (\<exists>pre req b lr tok rep. new_events st st' = pre @ [SendCall req (Responded 401 b),
              LoginCall (THINGSBOARD_USERNAME w) (THINGSBOARD_PASSWORD w) lr,
              SendCall (req\<lparr>rq_bearer := tok\<rparr>) rep]
            \<and> transport_replies pre = []
            \<and> r = (case rep of Failed d \<Rightarrow> Inl (RequestFailure d)
                               | Responded sc b' \<Rightarrow> read_response sc b'))"
proof -
  from make_thingsboard_request_cases [OF run]
  consider (asked) "st' = st"
    | (login) lr where "trace st' = trace st @
        [LoginCall (THINGSBOARD_USERNAME w) (THINGSBOARD_PASSWORD w) lr]"
    | (unsupported) pre where "trace st' = trace st @ pre" "transport_replies pre = []"
    | (sent) pre st1 req msg where "trace st1 = trace st @ pre" "transport_replies pre = []"
        "request_with_retry w st1 req msg = (r, st')"
    by blast
  then show ?thesis
  proof cases
    case asked
    then show ?thesis by (simp add: new_events_def)
  next
    case login
    then show ?thesis by (simp add: new_events_def)
  next
    case unsupported
    then show ?thesis by (simp add: new_events_def)
  next
    case sent
    have ne: "\<And>evs. trace st' = trace st1 @ evs \<Longrightarrow> new_events st st' = pre @ evs"
      using sent(1) by (simp add: new_events_def)
    from request_with_retry_cases [OF sent(3)] show ?thesis
    proof (elim disjE exE conjE)
      fix rep out
      assume "trace st' = trace st1 @ [SendCall req rep]" "r = Inr out"
        "\<forall>b. rep \<noteq> Responded 401 b" "\<forall>b. rep = Responded 204 b \<longrightarrow> out = SuccessMarker"
      with ne sent(2) show ?thesis by blast
    next
      fix b lr e
      assume "trace st' = trace st1 @ [SendCall req (Responded 401 b),
          LoginCall (THINGSBOARD_USERNAME w) (THINGSBOARD_PASSWORD w) lr]" "r = Inl e"
      with ne sent(2) show ?thesis by blast
    next
      fix b lr tok rep
      assume "trace st' = trace st1 @ [SendCall req (Responded 401 b),
          LoginCall (THINGSBOARD_USERNAME w) (THINGSBOARD_PASSWORD w) lr,
          SendCall (req\<lparr>rq_bearer := tok\<rparr>) rep]"
        "r = (case rep of Failed d \<Rightarrow> Inl (RequestFailure d)
                               | Responded sc b' \<Rightarrow> read_response sc b')"
      with ne sent(2) show ?thesis by blast
    qed
  qed
qed

text \<open>No run makes more than two resource requests: the retry is not repeated.\<close>

lemma at_most_two_transport_calls:
  assumes "make_thingsboard_request w st endpoint meth params json_data granted = (r, st')"
  shows "length (transport_replies (new_events st st')) \<le> 2"
  using run_shapes [OF assms] by (auto simp: transport_replies_append)

text \<open>
  Whatever goes wrong with the second request is raised, for every request and every
  platform: a status outside 2xx as \<open>HTTPStatusError\<close>, a client failure as it is.
\<close>

lemma failed_retry_is_raised:
  assumes run: "make_thingsboard_request w st endpoint meth params json_data granted = (r, st')"
    and replies: "transport_replies (new_events st st') = [Responded 401 b1, rep]"
  shows "(\<forall>sc b2. rep = Responded sc b2 \<and> \<not> (200 \<le> sc \<and> sc \<le> 299) \<longrightarrow>
            r = Inl (HTTPStatusError sc))
       \<and> (\<forall>d. rep = Failed d \<longrightarrow> r = Inl (RequestFailure d))"
  using run_shapes [OF run] replies
  by (auto simp: transport_replies_append read_response_def raise_for_status_def)

text \<open>
  C7. Whenever the transport answers a request of the run with status 204, on the
  first attempt or on the retry, the call returns the success marker
  \<open>{"success": True}\<close>; the body of that answer is never looked at, so it may even be
  undecodable.
\<close>

theorem status_204_gives_success_marker:
  assumes run: "make_thingsboard_request w st endpoint method params json_data granted = (r, st')"
    and got: "Responded 204 b \<in> set (transport_replies (new_events st st'))"
  shows "r = Inr SuccessMarker"
  using run_shapes [OF run] got
  by (auto simp: transport_replies_append read_response_def raise_for_status_def)

text \<open>C7 on a run whose retry is answered with 204 and no body.\<close>

theorem status_204_gives_success_marker_witness:
  "make_thingsboard_request (stub_env [login_ok] [Responded 401 None, Responded 204 None])
       logged_in ''device/abc'' ''GET'' PNone PNone False
     = (Inr SuccessMarker, retried_state (Responded 204 None))
   \<and> Responded 204 None
       \<in> set (transport_replies (new_events logged_in (retried_state (Responded 204 None))))"
proof -
  have reply: "Responded 204 None
       \<in> set (transport_replies (new_events logged_in (retried_state (Responded 204 None))))"
    by (simp add: new_events_def stub_defs)
  have "\<exists>r. make_thingsboard_request
          (stub_env [login_ok] [Responded 401 None, Responded 204 None])
          logged_in ''device/abc'' ''GET'' PNone PNone False
        = (r, retried_state (Responded 204 None))"
    by (simp add: run_defs stub_defs Let_def)
  then obtain r where run: "make_thingsboard_request
          (stub_env [login_ok] [Responded 401 None, Responded 204 None])
          logged_in ''device/abc'' ''GET'' PNone PNone False
        = (r, retried_state (Responded 204 None))" ..
  from status_204_gives_success_marker [OF run reply] run reply show ?thesis by simp
qed






text \<open>
  C3. With 401 on the first request and 401 again on the retry, the call makes exactly
  two requests, but the second \<open>raise_for_status()\<close> runs inside the
  \<open>except httpx.HTTPStatusError\<close> handler: the \<open>HTTPStatusError\<close> leaves the call
  instead of becoming an error dict.
\<close>

theorem second_401_is_raised:
  "make_thingsboard_request (stub_env [login_ok] [Responded 401 None, Responded 401 None])
       logged_in ''device/abc'' ''GET'' PNone PNone False
     = (Inl (HTTPStatusError 401), retried_state (Responded 401 None))
   \<and> transport_calls (trace (retried_state (Responded 401 None))) = 2"
  by (simp add: run_defs stub_defs Let_def)

text \<open>
  C2. A failed login exchange is not turned into an error dict: the \<open>ValueError\<close> of
  \<open>get_auth_token\<close> leaves the call, both on the lazy acquisition before the \<open>try\<close>
  (first conjunct) and on the forced refresh inside the handler (second conjunct).
\<close>

theorem login_failure_is_raised:
  "make_thingsboard_request (stub_env [Responded 401 None] []) fresh_state
       ''device/abc'' ''GET'' PNone PNone False
     = (Inl (ValueError (HTTPStatusError 401)),
        \<lparr>auth_token = PNone,
         trace = [LoginCall ''tenant'' ''secret'' (Responded 401 None)]\<rparr>)
   \<and> make_thingsboard_request (stub_env [Failed ''timed out''] [Responded 401 None]) logged_in
       ''device/abc'' ''DELETE'' PNone PNone True
     = (Inl (ValueError (RequestFailure ''timed out'')),
        \<lparr>auth_token = PStr ''t0'',
         trace = [SendCall \<lparr>rq_verb = ''DELETE'', rq_url = ''http://tb/api/device/abc'',
                             rq_bearer = PStr ''t0'', rq_params = PNone, rq_json = None\<rparr>
                    (Responded 401 None),
                  LoginCall ''tenant'' ''secret'' (Failed ''timed out'')]\<rparr>)"
  by (simp add: run_defs stub_defs Let_def)

subsection \<open>GET and the exact method comparison\<close>

lemma read_response_not_permission:
  "read_response sc b \<noteq> Inr (PermissionRequest pr)"
  by (simp add: read_response_def raise_for_status_def split: option.splits)

lemma request_with_retry_not_permission:
  assumes "request_with_retry w st req msg = (r, st')"
  shows "r \<noteq> Inr (PermissionRequest pr)"
proof -
  define rep where "rep = transport_stub w (transport_calls (trace st)) req"
  define st1 where "st1 = st\<lparr>trace := trace st @ [SendCall req rep]\<rparr>"
  have cr: "client_request w req st = (rep, st1)"
    by (simp add: client_request_def rep_def st1_def Let_def)
  show ?thesis
  proof (cases "\<exists>b. rep = Responded 401 b")
    case True
    then obtain b where "rep = Responded 401 b" ..
    with assms cr have "on_status_error w st1 req msg 401 = (r, st')"
      by (simp add: request_with_retry_def read_response_def raise_for_status_def)
    from on_status_error_401 [OF this] show ?thesis
    proof (elim disjE exE conjE)
      fix e
      assume "r = Inl e"
      then show ?thesis by simp
    next
      fix rep
      assume "r = (case rep of Failed d \<Rightarrow> Inl (RequestFailure d)
                             | Responded sc b \<Rightarrow> read_response sc b)"
      then show ?thesis
        by (cases rep) (simp_all add: read_response_not_permission)
    qed
  next
    case False
    with assms cr show ?thesis
      by (auto simp: request_with_retry_def read_response_def raise_for_status_def
          on_status_error_def
          split: http_reply.splits option.splits sum.splits exn.splits if_splits)
  qed
qed

text \<open>What a call of the \<open>try\<close> block sends first, keeps and returns.\<close>

lemma read_response_Inr:
  assumes "read_response sc b = Inr out"
  shows "out = SuccessMarker \<or> (\<exists>v. out = JsonBody v \<and> b = Some v)"
  using assms
  by (auto simp: read_response_def split: option.splits if_splits)

lemma read_response_Inl:
  assumes "read_response sc b = Inl e"
  shows "e = HTTPStatusError sc \<or> e = JSONDecodeError"
  using assms
  by (auto simp: read_response_def raise_for_status_def split: option.splits if_splits)

lemma request_with_retry_first_reply:
  assumes "request_with_retry w st req msg = (r, st')"
  shows "\<exists>evs. trace st' = trace st @
           SendCall req (transport_stub w (transport_calls (trace st)) req) # evs"
proof -
  define rep where "rep = transport_stub w (transport_calls (trace st)) req"
  define st1 where "st1 = st\<lparr>trace := trace st @ [SendCall req rep]\<rparr>"
  have cr: "client_request w req st = (rep, st1)"
    by (simp add: client_request_def rep_def st1_def Let_def)
  show ?thesis
  proof (cases "\<exists>b. rep = Responded 401 b")
    case True
    then obtain b where "rep = Responded 401 b" ..
    with assms cr have "on_status_error w st1 req msg 401 = (r, st')"
      by (simp add: request_with_retry_def read_response_def raise_for_status_def)
    from on_status_error_401 [OF this] show ?thesis
      by (auto simp: st1_def rep_def)
  next
    case False
    with assms cr have "st' = st1"
      by (auto simp: request_with_retry_def read_response_def raise_for_status_def
          on_status_error_def
          split: http_reply.splits option.splits sum.splits exn.splits if_splits)
    then show ?thesis by (simp add: st1_def rep_def)
  qed
qed

lemma request_with_retry_keeps_token:
  assumes "request_with_retry w st req msg = (r, st')"
    and "\<forall>b. transport_stub w (transport_calls (trace st)) req \<noteq> Responded 401 b"
  shows "auth_token st' = auth_token st"
  using assms
  by (auto simp: request_with_retry_def client_request_def read_response_def
      raise_for_status_def on_status_error_def Let_def
      split: http_reply.splits option.splits sum.splits exn.splits if_splits)

lemma request_with_retry_outcome:
  assumes run: "request_with_retry w st req msg = (Inr out, st')"
  shows "out = SuccessMarker \<or> (\<exists>ex. out = ErrorRecord msg (Some ex))
       \<or> (\<exists>sc v. out = JsonBody v
             \<and> Responded sc (Some v) \<in> set (transport_replies (new_events st st')))"
proof -
  define rep where "rep = transport_stub w (transport_calls (trace st)) req"
  define st1 where "st1 = st\<lparr>trace := trace st @ [SendCall req rep]\<rparr>"
  have cr: "client_request w req st = (rep, st1)"
    by (simp add: client_request_def rep_def st1_def Let_def)
  show ?thesis
  proof (cases "\<exists>b. rep = Responded 401 b")
    case True
    then obtain b where "rep = Responded 401 b" ..
    with run cr have "on_status_error w st1 req msg 401 = (Inr out, st')"
      by (simp add: request_with_retry_def read_response_def raise_for_status_def)
    from on_status_error_401 [OF this] obtain lr tok rep2 where
      tr: "trace st' = trace st1 @
              [LoginCall (THINGSBOARD_USERNAME w) (THINGSBOARD_PASSWORD w) lr,
               SendCall (req\<lparr>rq_bearer := tok\<rparr>) rep2]"
      and res: "Inr out = (case rep2 of Failed d \<Rightarrow> Inl (RequestFailure d)
                               | Responded sc b \<Rightarrow> read_response sc b)"
      by auto
    from res obtain sc b2 where rep2: "rep2 = Responded sc b2"
      and rr: "read_response sc b2 = Inr out"
      by (cases rep2) simp_all
    from tr rep2 have "Responded sc b2 \<in> set (transport_replies (new_events st st'))"
      by (simp add: new_events_def st1_def)
    with read_response_Inr [OF rr] show ?thesis by auto
  next
    case False
    show ?thesis
    proof (cases rep)
      case (Failed d)
      with run cr show ?thesis by (auto simp: request_with_retry_def)
    next
      case (Responded sc b)
      with run cr False have st': "st' = st1"
        and res: "read_response sc b = Inr out \<or> (\<exists>ex. out = ErrorRecord msg (Some ex))"
        by (auto simp: request_with_retry_def on_status_error_def
            split: sum.splits exn.splits if_splits dest: read_response_Inl)
      from st' Responded have "Responded sc b \<in> set (transport_replies (new_events st st'))"
        by (simp add: new_events_def st1_def)
      with res read_response_Inr [of sc b out] show ?thesis by auto
    qed
  qed
qed

text \<open>
  C4. For the method \<open>"GET"\<close>:
  \<^item> the \<open>permission_granted\<close> flag is not read (the call with any flag equals the
    call with \<open>False\<close>), and the result is never a permission request;
  \<^item> the first thing the call does is the login exchange when no token is held and
    the GET request otherwise;
  \<^item> whatever it returns is the success marker, the error dict of the GET branch, or
    a body the platform sent in answer to a request of this very call (the body is
    passed through as it is, so this is the sense in which no permission request is
    ever built);
  \<^item> with a token in place (the one held, or the one a successful lazy login
    exchange yields) the GET request follows at once, carries that token and gets the
    platform's answer; unless that answer is a 401, that token is the one left stored.
\<close>

theorem get_skips_permission_check:
  "make_thingsboard_request w st endpoint ''GET'' params json_data granted
     = make_thingsboard_request w st endpoint ''GET'' params json_data False
   \<and> (\<forall>pr. fst (make_thingsboard_request w st endpoint ''GET'' params json_data granted)
          \<noteq> Inr (PermissionRequest pr))
   \<and> (\<exists>ev evs.
         new_events st (snd (make_thingsboard_request w st endpoint ''GET'' params json_data
           granted)) = ev # evs
       \<and> (if py_truthy (auth_token st)
          then \<exists>rep. ev = SendCall
                 \<lparr>rq_verb = ''GET'', rq_url = THINGSBOARD_API_BASE w @ ''/'' @ endpoint,
                  rq_bearer = auth_token st, rq_params = params, rq_json = None\<rparr> rep
          else is_login ev))
   \<and> (\<forall>out. fst (make_thingsboard_request w st endpoint ''GET'' params json_data granted)
               = Inr out \<longrightarrow>
          out = SuccessMarker
        \<or> (\<exists>ex. out = ErrorRecord ''Unable to get data from ThingsBoard'' (Some ex))
        \<or> (\<exists>sc v. out = JsonBody v
              \<and> Responded sc (Some v) \<in> set (transport_replies (new_events st
                   (snd (make_thingsboard_request w st endpoint ''GET'' params json_data
                      granted))))))
   \<and> (\<forall>tok st1.
          (if py_truthy (auth_token st) then tok = auth_token st \<and> st1 = st
           else get_auth_token w st = (Inr tok, st1)) \<longrightarrow>
          (\<exists>evs. trace (snd (make_thingsboard_request w st endpoint ''GET'' params json_data
                     granted))
              = trace st1 @
                SendCall
                  \<lparr>rq_verb = ''GET'', rq_url = THINGSBOARD_API_BASE w @ ''/'' @ endpoint,
                   rq_bearer = tok, rq_params = params, rq_json = None\<rparr>
                  (transport_stub w (transport_calls (trace st))
                     \<lparr>rq_verb = ''GET'', rq_url = THINGSBOARD_API_BASE w @ ''/'' @ endpoint,
                      rq_bearer = tok, rq_params = params, rq_json = None\<rparr>) # evs)
        \<and> ((\<forall>b. transport_stub w (transport_calls (trace st))
                     \<lparr>rq_verb = ''GET'', rq_url = THINGSBOARD_API_BASE w @ ''/'' @ endpoint,
                      rq_bearer = tok, rq_params = params, rq_json = None\<rparr>
                   \<noteq> Responded 401 b) \<longrightarrow>
             auth_token (snd (make_thingsboard_request w st endpoint ''GET'' params json_data
                granted)) = tok))"
proof -
  let ?req = "\<lambda>tok. \<lparr>rq_verb = ''GET'', rq_url = THINGSBOARD_API_BASE w @ ''/'' @ endpoint,
                  rq_bearer = tok, rq_params = params, rq_json = None\<rparr>"
  let ?msg = "''Unable to get data from ThingsBoard''"
  obtain r st' where run:
    "make_thingsboard_request w st endpoint ''GET'' params json_data granted = (r, st')"
    by (cases "make_thingsboard_request w st endpoint ''GET'' params json_data granted")
  have flag: "make_thingsboard_request w st endpoint ''GET'' params json_data granted
     = make_thingsboard_request w st endpoint ''GET'' params json_data False"
    by (simp add: make_thingsboard_request_def)
  have no_request: "r \<noteq> Inr (PermissionRequest pr)" for pr
    using make_thingsboard_request_cases [OF run]
    by (auto dest: request_with_retry_not_permission)
  have sent: "(\<exists>evs. trace st' = trace s @
                 SendCall (?req tok) (transport_stub w (transport_calls (trace st)) (?req tok))
                   # evs)
            \<and> ((\<forall>b. transport_stub w (transport_calls (trace st)) (?req tok) \<noteq> Responded 401 b)
                 \<longrightarrow> auth_token st' = tok)
            \<and> (\<forall>out. r = Inr out \<longrightarrow>
                  out = SuccessMarker \<or> (\<exists>ex. out = ErrorRecord ?msg (Some ex))
                \<or> (\<exists>sc v. out = JsonBody v
                     \<and> Responded sc (Some v) \<in> set (transport_replies (new_events s st'))))"
    if rwr: "request_with_retry w s (?req tok) ?msg = (r, st')"
      and tc: "transport_calls (trace s) = transport_calls (trace st)"
      and tk: "auth_token s = tok" for s tok
  proof (intro conjI)
    from request_with_retry_first_reply [OF rwr] tc
    show "\<exists>evs. trace st' = trace s @
        SendCall (?req tok) (transport_stub w (transport_calls (trace st)) (?req tok)) # evs"
      by simp
    from request_with_retry_keeps_token [OF rwr] tc tk
    show "(\<forall>b. transport_stub w (transport_calls (trace st)) (?req tok) \<noteq> Responded 401 b)
                 \<longrightarrow> auth_token st' = tok"
      by simp
    show "\<forall>out. r = Inr out \<longrightarrow>
                  out = SuccessMarker \<or> (\<exists>ex. out = ErrorRecord ?msg (Some ex))
                \<or> (\<exists>sc v. out = JsonBody v
                     \<and> Responded sc (Some v) \<in> set (transport_replies (new_events s st')))"
      using request_with_retry_outcome [of w s "?req tok" ?msg _ st'] rwr by blast
  qed
  have runF: "make_thingsboard_request w st endpoint ''GET'' params json_data False = (r, st')"
    using flag run by simp
  let ?P3 = "\<exists>ev evs. new_events st st' = ev # evs
       \<and> (if py_truthy (auth_token st)
          then \<exists>rep. ev = SendCall (?req (auth_token st)) rep
          else is_login ev)"
  let ?P4 = "\<forall>out. r = Inr out \<longrightarrow>
          out = SuccessMarker \<or> (\<exists>ex. out = ErrorRecord ?msg (Some ex))
        \<or> (\<exists>sc v. out = JsonBody v
              \<and> Responded sc (Some v) \<in> set (transport_replies (new_events st st')))"
  let ?P5 = "\<forall>tok st1.
          (if py_truthy (auth_token st) then tok = auth_token st \<and> st1 = st
           else get_auth_token w st = (Inr tok, st1)) \<longrightarrow>
          (\<exists>evs. trace st' = trace st1 @
                SendCall (?req tok) (transport_stub w (transport_calls (trace st)) (?req tok))
                  # evs)
        \<and> ((\<forall>b. transport_stub w (transport_calls (trace st)) (?req tok) \<noteq> Responded 401 b)
             \<longrightarrow> auth_token st' = tok)"
  have "?P3 \<and> ?P4 \<and> ?P5"
  proof (cases "py_truthy (auth_token st)")
    case True
    with run have rwr: "request_with_retry w st (?req (auth_token st)) ?msg = (r, st')"
      by (simp add: make_thingsboard_request_def ensure_auth_token_def)
    note S = sent [OF rwr refl refl]
    from S obtain evs where tr: "trace st' = trace st @
        SendCall (?req (auth_token st))
          (transport_stub w (transport_calls (trace st)) (?req (auth_token st))) # evs"
      by blast
    have p3: ?P3 using tr True by (simp add: new_events_def)
    have p4: ?P4 using S by blast
    have p5: ?P5 using S True by simp
    from p3 p4 p5 show ?thesis by (intro conjI)
  next
    case False
    obtain r1 s1 where g: "get_auth_token w st = (r1, s1)"
      by (cases "get_auth_token w st")
    from get_auth_token_state [OF g] obtain lr where
      s1: "s1 = st\<lparr>trace := trace st @
              [LoginCall (THINGSBOARD_USERNAME w) (THINGSBOARD_PASSWORD w) lr]\<rparr>" ..
    show ?thesis
    proof (cases r1)
      case (Inl e)
      with run False g have res: "st' = s1" "r = Inl e"
        by (simp_all add: make_thingsboard_request_def ensure_auth_token_def)
      have p3: ?P3 using res s1 False by (simp add: new_events_def)
      have p4: ?P4 using res by simp
      have p5: ?P5 using False g Inl by simp
      from p3 p4 p5 show ?thesis by (intro conjI)
    next
      case (Inr tok)
      define s2 where "s2 = s1\<lparr>auth_token := tok\<rparr>"
      from Inr run False g have rwr: "request_with_retry w s2 (?req tok) ?msg = (r, st')"
        by (simp add: make_thingsboard_request_def ensure_auth_token_def s2_def)
      have tc: "transport_calls (trace s2) = transport_calls (trace st)"
        by (simp add: s2_def s1 transport_calls_def)
      have tk: "auth_token s2 = tok" by (simp add: s2_def)
      note S = sent [OF rwr tc tk]
      from S obtain evs where tr: "trace st' = trace s2 @
          SendCall (?req tok) (transport_stub w (transport_calls (trace st)) (?req tok)) # evs"
        by blast
      have tr2: "trace s2 = trace st @
          [LoginCall (THINGSBOARD_USERNAME w) (THINGSBOARD_PASSWORD w) lr]"
        by (simp add: s2_def s1)
      have ne: "new_events st st' = LoginCall (THINGSBOARD_USERNAME w)
          (THINGSBOARD_PASSWORD w) lr # new_events s2 st'"
        using tr tr2 by (simp add: new_events_def)
      have p3: ?P3 using ne False by simp
      have p4: ?P4 using S ne by simp
      have "trace s1 = trace s2" by (simp add: s2_def)
      with tr have tr1: "\<exists>evs. trace st' = trace s1 @
          SendCall (?req tok) (transport_stub w (transport_calls (trace st)) (?req tok)) # evs"
        by simp
      have p5: ?P5 using S tr1 False g Inr by simp
      from p3 p4 p5 show ?thesis by (intro conjI)
    qed
  qed
  moreover have "\<forall>pr. r \<noteq> Inr (PermissionRequest pr)" using no_request by blast
  ultimately show ?thesis
    unfolding run runF fst_conv snd_conv by simp
qed

text \<open>
  C4 on a GET of \<open>device/abc\<close> answered with 200 and a JSON object, once with no
  token held (login exchange, then the GET with the new token) and once with a token.
\<close>

theorem get_skips_permission_check_witness:
  "\<not> py_truthy (auth_token fresh_state)
   \<and> get_auth_token (stub_env [login_ok] [Responded 200 (Some device_abc)]) fresh_state
       = (Inr (PStr ''t1''),
          fresh_state\<lparr>trace := [LoginCall ''tenant'' ''secret'' login_ok]\<rparr>)
   \<and> (\<exists>evs. trace (snd (make_thingsboard_request
                 (stub_env [login_ok] [Responded 200 (Some device_abc)]) fresh_state
                 ''device/abc'' ''GET'' PNone PNone False))
         = LoginCall ''tenant'' ''secret'' login_ok
           # SendCall (get_req ''t1'') (Responded 200 (Some device_abc)) # evs)
   \<and> auth_token (snd (make_thingsboard_request
          (stub_env [login_ok] [Responded 200 (Some device_abc)]) fresh_state
          ''device/abc'' ''GET'' PNone PNone False)) = PStr ''t1''
   \<and> (\<forall>pr. fst (make_thingsboard_request
                 (stub_env [login_ok] [Responded 200 (Some device_abc)]) fresh_state
                 ''device/abc'' ''GET'' PNone PNone False)
          \<noteq> Inr (PermissionRequest pr))
   \<and> py_truthy (auth_token logged_in)
   \<and> (\<exists>evs. trace (snd (make_thingsboard_request
                 (stub_env [] [Responded 200 (Some device_abc)]) logged_in
                 ''device/abc'' ''GET'' PNone PNone True))
         = SendCall (get_req ''t0'') (Responded 200 (Some device_abc)) # evs)
   \<and> make_thingsboard_request (stub_env [] [Responded 200 (Some device_abc)]) logged_in
       ''device/abc'' ''GET'' PNone PNone True
     = (Inr (JsonBody device_abc),
        \<lparr>auth_token = PStr ''t0'',
         trace = [SendCall (get_req ''t0'') (Responded 200 (Some device_abc))]\<rparr>)"
proof -
  let ?w = "stub_env [login_ok] [Responded 200 (Some device_abc)]"
  let ?w2 = "stub_env [] [Responded 200 (Some device_abc)]"
  have h1: "\<not> py_truthy (auth_token fresh_state)" by (simp add: fresh_state_def)
  have h2: "get_auth_token ?w fresh_state
       = (Inr (PStr ''t1''),
          fresh_state\<lparr>trace := [LoginCall ''tenant'' ''secret'' login_ok]\<rparr>)"
    by (simp add: get_auth_token_def raise_for_status_def login_calls_def stub_defs Let_def)
  have h3: "py_truthy (auth_token logged_in)" by (simp add: logged_in_def)
  have reply: "transport_stub ?w (transport_calls (trace fresh_state)) q
      = Responded 200 (Some device_abc)" for q
    by (simp add: stub_defs transport_calls_def)
  have reply2: "transport_stub ?w2 (transport_calls (trace logged_in)) q
      = Responded 200 (Some device_abc)" for q
    by (simp add: stub_defs transport_calls_def)
  have base: "THINGSBOARD_API_BASE ?w = ''http://tb/api''"
    "THINGSBOARD_API_BASE ?w2 = ''http://tb/api''"
    by (simp_all add: stub_env_def)
  from get_skips_permission_check [of ?w fresh_state "''device/abc''" PNone PNone False]
  have a: "(\<exists>evs. trace (snd (make_thingsboard_request ?w fresh_state
                 ''device/abc'' ''GET'' PNone PNone False))
         = LoginCall ''tenant'' ''secret'' login_ok
           # SendCall (get_req ''t1'') (Responded 200 (Some device_abc)) # evs)
     \<and> auth_token (snd (make_thingsboard_request ?w fresh_state
          ''device/abc'' ''GET'' PNone PNone False)) = PStr ''t1''
     \<and> (\<forall>pr. fst (make_thingsboard_request ?w fresh_state
                 ''device/abc'' ''GET'' PNone PNone False)
          \<noteq> Inr (PermissionRequest pr))"
    using h1 h2 by (simp add: reply base get_req_def)
  have run2: "make_thingsboard_request ?w2 logged_in ''device/abc'' ''GET'' PNone PNone False
     = (Inr (JsonBody device_abc),
        \<lparr>auth_token = PStr ''t0'',
         trace = [SendCall (get_req ''t0'') (Responded 200 (Some device_abc))]\<rparr>)"
    by (simp add: run_defs stub_defs Let_def)
  from get_skips_permission_check [of ?w2 logged_in "''device/abc''" PNone PNone True]
  have b: "(\<exists>evs. trace (snd (make_thingsboard_request ?w2 logged_in
                 ''device/abc'' ''GET'' PNone PNone True))
         = SendCall (get_req ''t0'') (Responded 200 (Some device_abc)) # evs)
     \<and> make_thingsboard_request ?w2 logged_in ''device/abc'' ''GET'' PNone PNone True
       = (Inr (JsonBody device_abc),
        \<lparr>auth_token = PStr ''t0'',
         trace = [SendCall (get_req ''t0'') (Responded 200 (Some device_abc))]\<rparr>)"
    using h3 run2 by (simp add: reply2 base get_req_def logged_in_def)
  note a1 = a [THEN conjunct1] and a2 = a [THEN conjunct2, THEN conjunct1]
    and a3 = a [THEN conjunct2, THEN conjunct2]
    and b1 = b [THEN conjunct1] and b2 = b [THEN conjunct2]
  show ?thesis
    by (rule conjI [OF h1 conjI [OF h2 conjI [OF a1 conjI [OF a2 conjI [OF a3
          conjI [OF h3 conjI [OF b1 b2]]]]]]])
qed

text \<open>
  C10, as amended. The comparison is on the exact string \<open>"GET"\<close>. For every other
  method string, an unpermitted call returns a permission request and does nothing
  else. A permitted call with a method outside \<open>"POST"\<close>, \<open>"PUT"\<close>, \<open>"DELETE"\<close> makes
  no resource request; with a token held it returns the unsupported-method error and
  makes no network call at all; with no token held its only network call is the login
  exchange, and when that yields a token the unsupported-method error is returned.
\<close>

theorem method_comparison_is_exact:
  assumes "method \<noteq> ''GET''"
  shows "(\<exists>pr. make_thingsboard_request w st endpoint method params json_data False
               = (Inr (PermissionRequest pr), st))
       \<and> (method \<notin> {''POST'', ''PUT'', ''DELETE''} \<longrightarrow>
            transport_calls (new_events st
              (snd (make_thingsboard_request w st endpoint method params json_data True))) = 0
          \<and> (py_truthy (auth_token st) \<longrightarrow>
               make_thingsboard_request w st endpoint method params json_data True
                 = (Inr (ErrorRecord (''Unsupported HTTP method: '' @ method) None), st))
          \<and> (\<not> py_truthy (auth_token st) \<longrightarrow>
               (\<exists>lr. new_events st
                   (snd (make_thingsboard_request w st endpoint method params json_data True))
                 = [LoginCall (THINGSBOARD_USERNAME w) (THINGSBOARD_PASSWORD w) lr])
             \<and> (\<forall>tok st1. get_auth_token w st = (Inr tok, st1) \<longrightarrow>
                  make_thingsboard_request w st endpoint method params json_data True
                    = (Inr (ErrorRecord (''Unsupported HTTP method: '' @ method) None),
                       st1\<lparr>auth_token := tok\<rparr>))))"
proof -
  have ask: "\<exists>pr. make_thingsboard_request w st endpoint method params json_data False
               = (Inr (PermissionRequest pr), st)"
    using assms by (simp add: make_thingsboard_request_def)
  have rest: "transport_calls (new_events st
              (snd (make_thingsboard_request w st endpoint method params json_data True))) = 0
          \<and> (py_truthy (auth_token st) \<longrightarrow>
               make_thingsboard_request w st endpoint method params json_data True
                 = (Inr (ErrorRecord (''Unsupported HTTP method: '' @ method) None), st))
          \<and> (\<not> py_truthy (auth_token st) \<longrightarrow>
               (\<exists>lr. new_events st
                   (snd (make_thingsboard_request w st endpoint method params json_data True))
                 = [LoginCall (THINGSBOARD_USERNAME w) (THINGSBOARD_PASSWORD w) lr])
             \<and> (\<forall>tok st1. get_auth_token w st = (Inr tok, st1) \<longrightarrow>
                  make_thingsboard_request w st endpoint method params json_data True
                    = (Inr (ErrorRecord (''Unsupported HTTP method: '' @ method) None),
                       st1\<lparr>auth_token := tok\<rparr>)))"
    if other: "method \<notin> {''POST'', ''PUT'', ''DELETE''}"
  proof (cases "py_truthy (auth_token st)")
    case True
    with assms other show ?thesis
      by (simp add: make_thingsboard_request_def ensure_auth_token_def method_request_def
          new_events_def transport_calls_def)
  next
    case False
    obtain r1 st1 where g: "get_auth_token w st = (r1, st1)"
      by (cases "get_auth_token w st")
    from get_auth_token_state [OF g] obtain lr where
      st1: "st1 = st\<lparr>trace := trace st @
              [LoginCall (THINGSBOARD_USERNAME w) (THINGSBOARD_PASSWORD w) lr]\<rparr>" ..
    show ?thesis
    proof (cases r1)
      case (Inl e)
      with assms other False g st1 show ?thesis
        by (simp add: make_thingsboard_request_def ensure_auth_token_def method_request_def
            new_events_def transport_calls_def)
    next
      case (Inr tok)
      with assms other False g st1 show ?thesis
        by (simp add: make_thingsboard_request_def ensure_auth_token_def method_request_def
            new_events_def transport_calls_def)
    qed
  qed
  from ask rest show ?thesis by blast
qed

text \<open>C10 as amended, at the lowercase \<open>"get"\<close> the resource wrappers pass.\<close>

theorem method_comparison_is_exact_witness:
  "''get'' \<noteq> ''GET'' \<and> ''get'' \<notin> {''POST'', ''PUT'', ''DELETE''}
   \<and> py_truthy (auth_token logged_in) \<and> \<not> py_truthy (auth_token fresh_state)
   \<and> get_auth_token (stub_env [login_ok] []) fresh_state
       = (Inr (PStr ''t1''), fresh_state\<lparr>trace := [LoginCall ''tenant'' ''secret'' login_ok]\<rparr>)
   \<and> (\<exists>pr. make_thingsboard_request (stub_env [login_ok] []) logged_in ''alarm/7/comment''
              ''get'' (PDict []) PNone False = (Inr (PermissionRequest pr), logged_in))
   \<and> make_thingsboard_request (stub_env [login_ok] []) logged_in ''alarm/7/comment''
        ''get'' (PDict []) PNone True
       = (Inr (ErrorRecord ''Unsupported HTTP method: get'' None), logged_in)
   \<and> make_thingsboard_request (stub_env [login_ok] []) fresh_state ''alarm/7/comment''
        ''get'' (PDict []) PNone True
       = (Inr (ErrorRecord ''Unsupported HTTP method: get'' None),
          fresh_state\<lparr>trace := [LoginCall ''tenant'' ''secret'' login_ok],
                      auth_token := PStr ''t1''\<rparr>)"
proof -
  have h1: "''get'' \<noteq> ''GET''" by simp
  have h2: "''get'' \<notin> {''POST'', ''PUT'', ''DELETE''}" by simp
  have h3: "py_truthy (auth_token logged_in)" by (simp add: logged_in_def)
  have h4: "\<not> py_truthy (auth_token fresh_state)" by (simp add: fresh_state_def)
  have h5: "get_auth_token (stub_env [login_ok] []) fresh_state
       = (Inr (PStr ''t1''), fresh_state\<lparr>trace := [LoginCall ''tenant'' ''secret'' login_ok]\<rparr>)"
    by (simp add: get_auth_token_def raise_for_status_def login_calls_def stub_defs Let_def)
  from method_comparison_is_exact [OF h1, of "stub_env [login_ok] []" logged_in
      "''alarm/7/comment''" "PDict []" PNone] h2 h3
  have a: "(\<exists>pr. make_thingsboard_request (stub_env [login_ok] []) logged_in ''alarm/7/comment''
              ''get'' (PDict []) PNone False = (Inr (PermissionRequest pr), logged_in))
     \<and> make_thingsboard_request (stub_env [login_ok] []) logged_in ''alarm/7/comment''
        ''get'' (PDict []) PNone True
       = (Inr (ErrorRecord ''Unsupported HTTP method: get'' None), logged_in)"
    by simp
  from method_comparison_is_exact [OF h1, of "stub_env [login_ok] []" fresh_state
      "''alarm/7/comment''" "PDict []" PNone] h2 h4 h5
  have b: "make_thingsboard_request (stub_env [login_ok] []) fresh_state ''alarm/7/comment''
        ''get'' (PDict []) PNone True
       = (Inr (ErrorRecord ''Unsupported HTTP method: get'' None),
          fresh_state\<lparr>trace := [LoginCall ''tenant'' ''secret'' login_ok],
                      auth_token := PStr ''t1''\<rparr>)"
    by simp
  from h1 h2 h3 h4 h5 a b show ?thesis by blast
qed

text \<open>
  C10 as stated fails: with no token held, a permitted call with the method \<open>"get"\<close>
  performs the login exchange before it returns the unsupported-method error.
\<close>

theorem unsupported_method_after_login:
  "make_thingsboard_request (stub_env [login_ok] []) fresh_state
       ''alarm/7/comment'' ''get'' (PDict []) PNone True
     = (Inr (ErrorRecord ''Unsupported HTTP method: get'' None),
        \<lparr>auth_token = PStr ''t1'', trace = [LoginCall ''tenant'' ''secret'' login_ok]\<rparr>)
   \<and> login_calls (new_events fresh_state
        \<lparr>auth_token = PStr ''t1'', trace = [LoginCall ''tenant'' ''secret'' login_ok]\<rparr>) = 1"
  by (simp add: run_defs stub_defs new_events_def Let_def)

end
